theory Spec2Isabelle
  imports Complex_Main
begin

section \<open>Numbers, vectors and the library calls the program makes\<close>

text \<open>
  The program is one JavaScript module, \<^verbatim>\<open>src/index.js\<close>: it builds a scene graph once
  (the sun body, a wireframe, an occlusion shell, four corona shells, eight flares), then
  runs \<^verbatim>\<open>animate\<close> once per frame and a resize listener on every viewport change.

  A JavaScript Number is modelled as a \<^typ>\<open>real\<close>: \<open>+\<close>, \<open>-\<close>, \<open>*\<close>, \<open>/\<close>,
  \<^verbatim>\<open>Math.sin\<close> and \<^verbatim>\<open>Math.PI\<close> are the exact operations of the reals. The rounding
  of IEEE doubles is modelled apart, in the section on binary64 arithmetic, for the
  construction arithmetic whose exact results a claim is about. Loop counters are
  \<^typ>\<open>nat\<close>.
  A division whose divisor is zero has no finite value in JavaScript; \<open>js_div\<close>
  returns \<open>None\<close> there.
\<close>

definition js_div :: "real \<Rightarrow> real \<Rightarrow> real option" where
  "js_div a b = (if b = 0 then None else Some (a / b))"

definition trunc :: "real \<Rightarrow> int" where
  "trunc q = (if 0 \<le> q then \<lfloor>q\<rfloor> else \<lceil>q\<rceil>)"

text \<open>
  The operator \<^verbatim>\<open>%\<close> on Numbers: the remainder has the sign of the dividend, the
  quotient is rounded towards zero. Its only use has the divisor \<^verbatim>\<open>Math.PI * 2\<close>.
\<close>

definition js_rem :: "real \<Rightarrow> real \<Rightarrow> real" where
  "js_rem a b = a - b * of_int (trunc (a / b))"

record Vector3 =
  vx :: real
  vy :: real
  vz :: real

definition vec3 :: "real \<Rightarrow> real \<Rightarrow> real \<Rightarrow> Vector3" where
  "vec3 a b c = \<lparr>vx = a, vy = b, vz = c\<rparr>"

definition length_v3 :: "Vector3 \<Rightarrow> real" where
  "length_v3 v = sqrt (vx v * vx v + vy v * vy v + vz v * vz v)"

definition multiplyScalar :: "Vector3 \<Rightarrow> real \<Rightarrow> Vector3" where
  "multiplyScalar v s = \<lparr>vx = vx v * s, vy = vy v * s, vz = vz v * s\<rparr>"

definition divideScalar :: "Vector3 \<Rightarrow> real \<Rightarrow> Vector3" where
  "divideScalar v s = multiplyScalar v (1 / s)"

text \<open>
  Modelled from the spec: \<^verbatim>\<open>Vector3.normalize\<close> belongs to the three.js library, which
  is not under \<^verbatim>\<open>src/\<close>; the spec says the random point is "normalized". The library
  divides the vector by \<^verbatim>\<open>this.length() || 1\<close>: by its length, and by 1 when the length
  is 0, so the zero vector stays the zero vector.
\<close>

definition normalize_v3 :: "Vector3 \<Rightarrow> Vector3" where
  "normalize_v3 v = divideScalar v (if length_v3 v = 0 then 1 else length_v3 v)"

text \<open>
  Modelled from the spec: \<^verbatim>\<open>Curve.getPoints\<close> belongs to the three.js library; the spec
  says the curve is interpolated "into 51 evenly-parameterized points". The library
  evaluates the curve at \<open>d / divisions\<close> for \<open>d = 0, \<dots>, divisions\<close>. The spline
  itself (\<^verbatim>\<open>getPoint\<close>, of a \<^verbatim>\<open>CatmullRomCurve3\<close>) is a parameter \<open>gp\<close> of the model.
\<close>

type_synonym curve_fn = "Vector3 list \<Rightarrow> real \<Rightarrow> Vector3"

definition getPoints :: "curve_fn \<Rightarrow> Vector3 list \<Rightarrow> nat \<Rightarrow> Vector3 list" where
  "getPoints gp cps divisions =
     map (\<lambda>d. gp cps (real d / real divisions)) [0 ..< divisions + 1]"

section \<open>The scene graph\<close>

datatype Geometry =
    IcosahedronGeometry real nat
  | SphereGeometry real nat nat
  | BufferGeometry "Vector3 list"

datatype MaterialKind = ShaderMaterial | MeshBasicMaterial | LineBasicMaterial

datatype Blending = NormalBlending | AdditiveBlending

datatype Side = FrontSide | BackSide

text \<open>A colour is the hexadecimal value given to \<^verbatim>\<open>THREE.Color\<close> and the factor applied
  to it by \<^verbatim>\<open>multiplyScalar\<close> (1 when the source applies none).\<close>

datatype Color = Color nat real

record Material =
  kind :: MaterialKind
  color :: "Color option"
  wireframe :: bool
  transparent :: bool
  opacity :: real
  blending :: Blending
  side :: Side
  depthWrite :: bool
  colorWrite :: bool

text \<open>The values three.js gives to the material fields that a constructor call leaves out.\<close>

definition default_material :: "MaterialKind \<Rightarrow> Material" where
  "default_material k =
     \<lparr>kind = k, color = None, wireframe = False, transparent = False, opacity = 1,
      blending = NormalBlending, side = FrontSide, depthWrite = True, colorWrite = True\<rparr>"

text \<open>An object of the scene: \<open>scale\<close> is the uniform scale set by
  \<^verbatim>\<open>scale.setScalar\<close> (1 at creation).\<close>

record Mesh =
  geometry :: Geometry
  material :: Material
  scale :: real
  renderOrder :: real

text \<open>A flare line carries \<^verbatim>\<open>userData = { phase, scale }\<close>.\<close>

record Line = Mesh +
  userData_phase :: real
  userData_scale :: real

text \<open>
  The state of the program. \<open>sunMat_time\<close> is \<^verbatim>\<open>sunMat.uniforms.time.value\<close>;
  \<open>sunGroup_scale\<close> and \<open>sunGroup_rotation_y\<close> are the transform of the group.
  The array \<^verbatim>\<open>flares\<close> and the children of \<^verbatim>\<open>sunGroup\<close> hold the same line objects,
  so the state keeps each object once. The camera pose, which only the orbit controls
  change, and the rasteriser are outside the model.
\<close>

record Scene =
  renderer_size :: "real \<times> real"
  camera_fov :: real
  camera_aspect :: "real option"
  camera_near :: real
  camera_far :: real
  background :: nat
  sunMat_time :: real
  sunGroup_scale :: real
  sunGroup_rotation_y :: real
  sunMesh :: Mesh
  wireMesh :: Mesh
  occlusion :: Mesh
  coronas :: "Mesh list"
  flares :: "Line list"

section \<open>Construction\<close>

definition geo :: Geometry where
  "geo = IcosahedronGeometry 1.0 6"

definition sunMat :: Material where
  "sunMat = (default_material ShaderMaterial)\<lparr>side := FrontSide\<rparr>"

definition sunMesh_init :: Mesh where
  "sunMesh_init = \<lparr>geometry = geo, material = sunMat, scale = 1, renderOrder = 0\<rparr>"

definition wireMat :: Material where
  "wireMat = (default_material MeshBasicMaterial)
     \<lparr>color := Some (Color 0xffdd99 1), wireframe := True, transparent := True,
      opacity := 0.3\<rparr>"

definition wireMesh_init :: Mesh where
  "wireMesh_init = \<lparr>geometry = geo, material = wireMat, scale = 1.012, renderOrder = 0.5\<rparr>"

definition occlusion_init :: Mesh where
  "occlusion_init =
     \<lparr>geometry = SphereGeometry 1.025 64 48,
      material = (default_material MeshBasicMaterial)
        \<lparr>color := Some (Color 0x000000 1), opacity := 0, transparent := True,
         depthWrite := True, colorWrite := False\<rparr>,
      scale = 1, renderOrder = 1\<rparr>"

text \<open>The body of the corona loop, for the loop counter \<open>i\<close>.\<close>

definition corona :: "nat \<Rightarrow> Mesh" where
  "corona i =
     (let radius = 1.0 + real i * 0.16 in
      \<lparr>geometry = SphereGeometry radius 64 48,
       material = (default_material MeshBasicMaterial)
         \<lparr>color := Some (Color 0xffaa44 (1.4 - real i * 0.28)), transparent := True,
          opacity := 0.2 - real i * 0.11, blending := AdditiveBlending, side := BackSide,
          depthWrite := False\<rparr>,
       scale = 1, renderOrder = 2 + real i\<rparr>)"

text \<open>\<^verbatim>\<open>for (let i = 1; i <= 4; i++)\<close>: the meshes are added to the group in loop order.\<close>

function corona_loop :: "nat \<Rightarrow> Mesh list \<Rightarrow> Mesh list" where
  "corona_loop i acc = (if i \<le> 4 then corona_loop (i + 1) (acc @ [corona i]) else acc)"
  by pat_completeness auto
termination
  by (relation "measure (\<lambda>(i, acc). 5 - i)") auto

declare corona_loop.simps [simp del]

definition flareCount :: nat where
  "flareCount = 8"

text \<open>
  The random source: \<open>rnd k\<close> is the value returned by the \<open>k\<close>-th call of
  \<^verbatim>\<open>Math.random()\<close> (counted from 0), a number in \<open>[0, 1)\<close>. One flare makes nine
  calls, in the order of the source: three for the near-surface waypoint, three for the
  direction of the tip, one for its radius, one for the material opacity and one for
  \<^verbatim>\<open>userData.scale\<close>.
\<close>

type_synonym random_source = "nat \<Rightarrow> real"

definition valid_random :: "random_source \<Rightarrow> bool" where
  "valid_random rnd = (\<forall>k. 0 \<le> rnd k \<and> rnd k < 1)"

text \<open>The control points of the curve of a flare whose first draw is number \<open>k\<close>.\<close>

definition flare_curve :: "random_source \<Rightarrow> nat \<Rightarrow> Vector3 list" where
  "flare_curve rnd k =
     [vec3 0 0 0,
      multiplyScalar
        (normalize_v3 (vec3 ((rnd k - 0.5) * 0.8) ((rnd (k + 1) - 0.5) * 0.8)
                            ((rnd (k + 2) - 0.5) * 0.8)))
        1.1,
      multiplyScalar
        (normalize_v3 (vec3 ((rnd (k + 3) - 0.5) * 3) ((rnd (k + 4) - 0.5) * 3)
                            ((rnd (k + 5) - 0.5) * 3)))
        (2.5 + rnd (k + 6) * 1.5)]"

text \<open>The body of the flare loop, for the loop counter \<open>i\<close> and the first draw \<open>k\<close>.\<close>

definition flareLine :: "curve_fn \<Rightarrow> random_source \<Rightarrow> nat \<Rightarrow> nat \<Rightarrow> Line" where
  "flareLine gp rnd i k =
     (let curve = flare_curve rnd k;
          points = getPoints gp curve 50;
          flareGeo = BufferGeometry points;
          flareMat = (default_material LineBasicMaterial)
            \<lparr>color := Some (Color 0xffee99 1), transparent := True,
             opacity := 0.7 + rnd (k + 7) * 0.3, blending := AdditiveBlending\<rparr>
      in \<lparr>geometry = flareGeo, material = flareMat, scale = 1,
          renderOrder = 10 + real i,
          userData_phase = real i * 1.5, userData_scale = 1 + rnd (k + 8) * 0.8\<rparr>)"

text \<open>\<^verbatim>\<open>for (let i = 0; i < flareCount; i++)\<close>, with the number \<open>k\<close> of the next draw.\<close>

function flare_loop ::
  "curve_fn \<Rightarrow> random_source \<Rightarrow> nat \<Rightarrow> nat \<Rightarrow> Line list \<Rightarrow> Line list" where
  "flare_loop gp rnd i k acc =
     (if i < flareCount
      then flare_loop gp rnd (i + 1) (k + 9) (acc @ [flareLine gp rnd i k])
      else acc)"
  by pat_completeness auto
termination
  by (relation "measure (\<lambda>(gp, rnd, i, k, acc). flareCount - i)") auto

declare flare_loop.simps [simp del]

text \<open>
  The module's top-level statements up to the first call of \<^verbatim>\<open>animate\<close>: \<open>w\<close> and
  \<open>h\<close> are \<^verbatim>\<open>window.innerWidth\<close> and \<^verbatim>\<open>window.innerHeight\<close>.
\<close>

definition build_scene :: "curve_fn \<Rightarrow> random_source \<Rightarrow> real \<Rightarrow> real \<Rightarrow> Scene" where
  "build_scene gp rnd w h =
     \<lparr>renderer_size = (w, h),
      camera_fov = 75, camera_aspect = js_div w h, camera_near = 0.1, camera_far = 1000,
      background = 0x000814,
      sunMat_time = 0, sunGroup_scale = 1, sunGroup_rotation_y = 0,
      sunMesh = sunMesh_init, wireMesh = wireMesh_init, occlusion = occlusion_init,
      coronas = corona_loop 1 [],
      flares = flare_loop gp rnd 0 0 []\<rparr>"

text \<open>The render orders of the children of \<^verbatim>\<open>sunGroup\<close>, in the order they were added.\<close>

definition renderOrders :: "Scene \<Rightarrow> real list" where
  "renderOrders s =
     [renderOrder (sunMesh s), renderOrder (wireMesh s), renderOrder (occlusion s)]
     @ map renderOrder (coronas s) @ map renderOrder (flares s)"

text \<open>The radius of a sphere-like mesh in the group's frame: the radius of its geometry
  times its uniform scale.\<close>

fun geometry_radius :: "Geometry \<Rightarrow> real option" where
  "geometry_radius (IcosahedronGeometry r detail) = Some r"
| "geometry_radius (SphereGeometry r ws hs) = Some r"
| "geometry_radius (BufferGeometry ps) = None"

definition mesh_radius :: "Mesh \<Rightarrow> real option" where
  "mesh_radius m = map_option (\<lambda>r. r * scale m) (geometry_radius (geometry m))"

section \<open>The surface shader\<close>

type_synonym vec2 = "real \<times> real"

definition dot :: "vec2 \<Rightarrow> vec2 \<Rightarrow> real" where
  "dot p q = fst p * fst q + snd p * snd q"

definition fract :: "real \<Rightarrow> real" where
  "fract a = a - of_int \<lfloor>a\<rfloor>"

definition clamp :: "real \<Rightarrow> real \<Rightarrow> real \<Rightarrow> real" where
  "clamp a lo hi = min (max a lo) hi"

definition smoothstep :: "real \<Rightarrow> real \<Rightarrow> real \<Rightarrow> real" where
  "smoothstep edge0 edge1 a =
     (let t = clamp ((a - edge0) / (edge1 - edge0)) 0 1 in t * t * (3 - 2 * t))"

definition mix :: "Vector3 \<Rightarrow> Vector3 \<Rightarrow> real \<Rightarrow> Vector3" where
  "mix a b t =
     \<lparr>vx = vx a * (1 - t) + vx b * t, vy = vy a * (1 - t) + vy b * t,
      vz = vz a * (1 - t) + vz b * t\<rparr>"

text \<open>\<^verbatim>\<open>p * k + c\<close> on a \<^verbatim>\<open>vec2\<close>: the scalars act on each component.\<close>

definition scale_add :: "vec2 \<Rightarrow> real \<Rightarrow> real \<Rightarrow> vec2" where
  "scale_add p k c = (fst p * k + c, snd p * k + c)"

definition noise :: "vec2 \<Rightarrow> real" where
  "noise p = fract (sin (dot p (12.9898, 78.233)) * 43758.5453)"

text \<open>
  \<^verbatim>\<open>main\<close> of the fragment shader: the uniform \<open>time\<close>, the varyings \<open>vNormal\<close> and
  \<open>vUv\<close>; the result is \<^verbatim>\<open>gl_FragColor\<close>, a colour and its alpha.
\<close>

definition fragment_main :: "real \<Rightarrow> Vector3 \<Rightarrow> vec2 \<Rightarrow> Vector3 \<times> real" where
  "fragment_main time vNormal vUv =
     (let baseColor = vec3 1.0 0.7 0.2;
          spotColor = vec3 0.6 0.3 0.1;
          n0 = noise (scale_add vUv 5.0 (time * 0.05));
          n1 = n0 + noise (scale_add vUv 12.0 (time * 0.08)) * 0.5;
          n2 = smoothstep 0.4 0.7 n1;
          color = mix spotColor baseColor n2
      in (color, 1.0))"

section \<open>The animation tick and the resize listener\<close>

text \<open>The body of \<^verbatim>\<open>flares.forEach\<close>.\<close>

definition animate_flare :: "real \<Rightarrow> Line \<Rightarrow> Line" where
  "animate_flare time flare =
     (let phase = js_rem (time + userData_phase flare) (pi * 2);
          grow = max 0 (sin (phase * 2) * 1.5)
      in flare\<lparr>scale := grow * userData_scale flare,
               material := (material flare)\<lparr>opacity := 0.4 + sin (phase * 3) * 0.6\<rparr>\<rparr>)"

text \<open>
  The state updates of \<^verbatim>\<open>animate(t)\<close>. The calls that follow them
  (\<^verbatim>\<open>controls.update()\<close>, \<^verbatim>\<open>renderer.render\<close>) and the request of the next frame
  act on what is outside the model.
\<close>

definition animate :: "real \<Rightarrow> Scene \<Rightarrow> Scene" where
  "animate t s =
     (let time = t * 0.0005;
          s1 = s\<lparr>sunMat_time := time\<rparr>;
          pulse = 1 + sin (time * 2) * 0.02;
          s2 = s1\<lparr>sunGroup_scale := pulse\<rparr>;
          s3 = s2\<lparr>sunGroup_rotation_y := time * 0.3\<rparr>
      in s3\<lparr>flares := map (animate_flare time) (flares s3)\<rparr>)"

text \<open>\<^verbatim>\<open>function animate(t = 0)\<close>: a call without an argument runs the tick at 0.\<close>

definition animate_call :: "real option \<Rightarrow> Scene \<Rightarrow> Scene" where
  "animate_call t s = animate (case t of None \<Rightarrow> 0 | Some v \<Rightarrow> v) s"

text \<open>The resize listener, for the new \<^verbatim>\<open>window.innerWidth\<close> and
  \<^verbatim>\<open>window.innerHeight\<close>; the projection matrix is a function of the camera's
  \<open>fov\<close>, \<open>aspect\<close>, \<open>near\<close> and \<open>far\<close>.\<close>

definition resize :: "real \<Rightarrow> real \<Rightarrow> Scene \<Rightarrow> Scene" where
  "resize w h s = s\<lparr>renderer_size := (w, h), camera_aspect := js_div w h\<rparr>"

text \<open>
  The life of the program: the module builds the scene and calls \<^verbatim>\<open>animate()\<close> once,
  without an argument; from then on the host calls \<^verbatim>\<open>animate\<close> with the timestamp of
  each frame and the resize listener with each new viewport size, one call at a time.
\<close>

definition startup :: "curve_fn \<Rightarrow> random_source \<Rightarrow> real \<Rightarrow> real \<Rightarrow> Scene" where
  "startup gp rnd w h = animate_call None (build_scene gp rnd w h)"

datatype Event = Frame real | Resize real real

fun handle :: "Event \<Rightarrow> Scene \<Rightarrow> Scene" where
  "handle (Frame t) s = animate_call (Some t) s"
| "handle (Resize w h) s = resize w h s"

fun run :: "Event list \<Rightarrow> Scene \<Rightarrow> Scene" where
  "run [] s = s"
| "run (e # es) s = run es (handle e s)"

section \<open>The shader as the specification words it\<close>

text \<open>
  The specification's formula for the shader: two octaves of the noise, the second
  weighted by 0.5, passed through the smooth threshold.
\<close>

definition spec_n :: "vec2 \<Rightarrow> real \<Rightarrow> real" where
  "spec_n uv time =
     smoothstep 0.4 0.7
       (noise (fst uv * 5 + time * 0.05, snd uv * 5 + time * 0.05)
        + 0.5 * noise (fst uv * 12 + time * 0.08, snd uv * 12 + time * 0.08))"

definition spec_rgb :: "vec2 \<Rightarrow> real \<Rightarrow> Vector3" where
  "spec_rgb uv time = mix (vec3 0.6 0.3 0.1) (vec3 1.0 0.7 0.2) (spec_n uv time)"

section \<open>Binary64 arithmetic\<close>

text \<open>
  Where a claim is about the exact number the program stores, the rounding of each
  literal and of each operation counts. The definitions below give the construction
  arithmetic with a rounding function \<open>rd\<close> applied to every literal and to the result
  of every operation: with \<open>rd\<close> the identity they are the definitions above, with
  \<open>rd = f64\<close> they compute what the program computes in IEEE 754 binary64.
\<close>

text \<open>Rounding to the nearest integer, a tie to the even one.\<close>

definition rne :: "real \<Rightarrow> int" where
  "rne r =
     (let n = \<lfloor>r\<rfloor>; d = r - of_int n
      in if d < 1 / 2 then n else if 1 / 2 < d then n + 1 else if even n then n else n + 1)"

text \<open>
  The spacing of the doubles around a magnitude \<open>m\<close>: the power of two \<open>q\<close> with
  \<open>2 ^ 52 \<le> m / q < 2 ^ 53\<close>, found from \<open>q = 1\<close> by halving (at most 1074 times:
  \<open>1 / 2 ^ 1074\<close> is the spacing of the subnormal doubles) or by doubling (at most 971
  times, up to the spacing \<open>2 ^ 971\<close> of the largest doubles).
\<close>

fun ulp_down :: "nat \<Rightarrow> real \<Rightarrow> real \<Rightarrow> real" where
  "ulp_down 0 m q = q"
| "ulp_down (Suc n) m q = (if m < 2 ^ 52 * q then ulp_down n m (q / 2) else q)"

fun ulp_up :: "nat \<Rightarrow> real \<Rightarrow> real \<Rightarrow> real" where
  "ulp_up 0 m q = q"
| "ulp_up (Suc n) m q = (if 2 ^ 53 * q \<le> m then ulp_up n m (q * 2) else q)"

definition ulp :: "real \<Rightarrow> real" where
  "ulp m = (if m < 2 ^ 52 then ulp_down 1074 m 1 else ulp_up 971 m 1)"

text \<open>
  The double nearest to a real, ties to the even significand: the value of a decimal
  literal, and the result of \<^verbatim>\<open>+\<close>, \<^verbatim>\<open>-\<close>, \<^verbatim>\<open>*\<close>, \<^verbatim>\<open>/\<close> and \<^verbatim>\<open>Math.sqrt\<close> on
  doubles, applied to the exact result. A result of magnitude \<open>2 ^ 1024\<close> or more is
  \<^verbatim>\<open>Infinity\<close> in JavaScript and is outside this model, as are \<^verbatim>\<open>NaN\<close> and the sign of
  zero; no number below comes near them.
\<close>

definition f64 :: "real \<Rightarrow> real" where
  "f64 a = (if a = 0 then 0 else of_int (rne (a / ulp \<bar>a\<bar>)) * ulp \<bar>a\<bar>)"

text \<open>The body of the corona loop, every literal and every result rounded by \<open>rd\<close>
  (the loop counter and the integer 2 are doubles as they are).\<close>

definition corona_with :: "(real \<Rightarrow> real) \<Rightarrow> nat \<Rightarrow> Mesh" where
  "corona_with rd i =
     (let radius = rd (rd 1.0 + rd (real i * rd 0.16)) in
      \<lparr>geometry = SphereGeometry radius 64 48,
       material = (default_material MeshBasicMaterial)
         \<lparr>color := Some (Color 0xffaa44 (rd (rd 1.4 - rd (real i * rd 0.28)))),
          transparent := True,
          opacity := rd (rd 0.2 - rd (real i * rd 0.11)), blending := AdditiveBlending,
          side := BackSide, depthWrite := False\<rparr>,
       scale = 1, renderOrder = rd (2 + real i)\<rparr>)"

text \<open>
  \<^verbatim>\<open>Vector3.length\<close>, \<^verbatim>\<open>multiplyScalar\<close>, \<^verbatim>\<open>normalize\<close> (which is
  \<^verbatim>\<open>divideScalar(length() || 1)\<close>, itself \<^verbatim>\<open>multiplyScalar(1 / scalar)\<close>) and the control
  points of a flare, every literal and every result rounded by \<open>rd\<close>.
\<close>

definition length_with :: "(real \<Rightarrow> real) \<Rightarrow> Vector3 \<Rightarrow> real" where
  "length_with rd v =
     rd (sqrt (rd (rd (rd (vx v * vx v) + rd (vy v * vy v)) + rd (vz v * vz v))))"

definition multiplyScalar_with :: "(real \<Rightarrow> real) \<Rightarrow> Vector3 \<Rightarrow> real \<Rightarrow> Vector3" where
  "multiplyScalar_with rd v s = \<lparr>vx = rd (vx v * s), vy = rd (vy v * s), vz = rd (vz v * s)\<rparr>"

definition normalize_with :: "(real \<Rightarrow> real) \<Rightarrow> Vector3 \<Rightarrow> Vector3" where
  "normalize_with rd v =
     multiplyScalar_with rd v
       (rd (1 / (if length_with rd v = 0 then 1 else length_with rd v)))"

definition flare_curve_with :: "(real \<Rightarrow> real) \<Rightarrow> random_source \<Rightarrow> nat \<Rightarrow> Vector3 list" where
  "flare_curve_with rd rnd k =
     [vec3 0 0 0,
      multiplyScalar_with rd
        (normalize_with rd
           (vec3 (rd (rd (rnd k - rd 0.5) * rd 0.8))
                 (rd (rd (rnd (k + 1) - rd 0.5) * rd 0.8))
                 (rd (rd (rnd (k + 2) - rd 0.5) * rd 0.8))))
        (rd 1.1),
      multiplyScalar_with rd
        (normalize_with rd
           (vec3 (rd (rd (rnd (k + 3) - rd 0.5) * 3))
                 (rd (rd (rnd (k + 4) - rd 0.5) * 3))
                 (rd (rd (rnd (k + 5) - rd 0.5) * 3))))
        (rd (rd 2.5 + rd (rnd (k + 6) * rd 1.5)))]"

section \<open>Sample inputs\<close>

text \<open>A random source that always returns 0, and one that always returns 0.5.\<close>

definition rnd_zero :: random_source where
  "rnd_zero k = 0"

definition rnd_half :: random_source where
  "rnd_half k = 1 / 2"

text \<open>A curve that is the polyline through the first and the last control point.\<close>

definition gp_chord :: curve_fn where
  "gp_chord cps u = mix (hd cps) (last cps) u"

section \<open>What the two construction loops build\<close>

lemma corona_loop_unfold: "corona_loop 1 [] = [corona 1, corona 2, corona 3, corona 4]"
  by (simp add: corona_loop.simps eval_nat_numeral)

lemma coronas_build:
  "coronas (build_scene gp rnd w h) = [corona 1, corona 2, corona 3, corona 4]"
  unfolding build_scene_def corona_loop_unfold by simp

text \<open>The flare loop started at counter \<open>i\<close> and draw \<open>k\<close> appends one line per
  remaining counter, each nine draws after the one before.\<close>

lemma flare_loop_eq:
  "i \<le> flareCount \<Longrightarrow>
   flare_loop gp rnd i k acc =
     acc @ map (\<lambda>j. flareLine gp rnd (i + j) (k + 9 * j)) [0 ..< flareCount - i]"
proof (induction gp rnd i k acc rule: flare_loop.induct)
  case (1 gp rnd i k acc)
  show ?case
  proof (cases "i < flareCount")
    case True
    then have "flareCount - i = Suc (flareCount - (i + 1))" by simp
    then have "[0 ..< flareCount - i] = 0 # map Suc [0 ..< flareCount - (i + 1)]"
      by (simp add: upt_conv_Cons map_Suc_upt del: upt_Suc)
    with True 1 show ?thesis
      by (subst flare_loop.simps) (simp add: o_def add.assoc)
  next
    case False
    with 1 show ?thesis by (subst flare_loop.simps) simp
  qed
qed

lemma flares_build:
  "flares (build_scene gp rnd w h) = map (\<lambda>j. flareLine gp rnd j (9 * j)) [0 ..< flareCount]"
  by (simp add: build_scene_def flare_loop_eq)

lemma length_flares_build: "length (flares (build_scene gp rnd w h)) = 8"
  by (simp add: flares_build flareCount_def)

lemma nth_flares_build:
  "i < 8 \<Longrightarrow> flares (build_scene gp rnd w h) ! i = flareLine gp rnd i (9 * i)"
  by (simp add: flares_build flareCount_def del: upt_Suc)

lemma upt_0_8: "[0 ..< 8] = [0, 1, 2, 3, 4, 5, 6, 7::nat]"
  by code_simp

lemma sunMesh_build [simp]: "sunMesh (build_scene gp rnd w h) = sunMesh_init"
  and wireMesh_build [simp]: "wireMesh (build_scene gp rnd w h) = wireMesh_init"
  and occlusion_build [simp]: "occlusion (build_scene gp rnd w h) = occlusion_init"
  by (simp_all add: build_scene_def)

lemma renderOrders_flares_build:
  "map renderOrder (flares (build_scene gp rnd w h)) = [10, 11, 12, 13, 14, 15, 16, 17]"
  by (simp add: flares_build flareCount_def flareLine_def Let_def upt_0_8)

lemma renderOrders_coronas_build:
  "map renderOrder (coronas (build_scene gp rnd w h)) = [3, 4, 5, 6]"
  by (simp add: coronas_build corona_def)

lemma renderOrders_build:
  "renderOrders (build_scene gp rnd w h)
     = [0, 0.5, 1, 3, 4, 5, 6, 10, 11, 12, 13, 14, 15, 16, 17]"
  unfolding renderOrders_def renderOrders_flares_build renderOrders_coronas_build
  by (simp add: sunMesh_init_def wireMesh_init_def occlusion_init_def)

lemma list_all_renderOrder:
  "list_all (\<lambda>x. P (renderOrder x)) xs = list_all P (map renderOrder xs)"
  by (induction xs) simp_all

section \<open>Bounds on what a tick writes\<close>

lemma sin_affine_bounds:
  fixes a b x :: real
  assumes "0 \<le> b"
  shows "a - b \<le> a + sin x * b" and "a + sin x * b \<le> a + b"
proof -
  have "- 1 * b \<le> sin x * b" by (rule mult_right_mono) (simp_all add: assms)
  then show "a - b \<le> a + sin x * b" by simp
  have "sin x * b \<le> 1 * b" by (rule mult_right_mono) (simp_all add: assms)
  then show "a + sin x * b \<le> a + b" by simp
qed

lemma sunGroup_scale_animate:
  "sunGroup_scale (animate t s) = 1 + sin (t * 0.0005 * 2) * 0.02"
  by (simp add: animate_def Let_def)

lemma animate_flare_idem: "animate_flare time (animate_flare time f) = animate_flare time f"
  by (simp add: animate_flare_def Let_def)

lemma smoothstep_bounds: "e0 < e1 \<Longrightarrow> 0 \<le> smoothstep e0 e1 a \<and> smoothstep e0 e1 a \<le> 1"
proof -
  define t where "t = clamp ((a - e0) / (e1 - e0)) 0 1"
  have t: "0 \<le> t" "t \<le> 1" by (simp_all add: t_def clamp_def)
  have s: "smoothstep e0 e1 a = t * t * (3 - 2 * t)"
    by (simp add: smoothstep_def t_def Let_def)
  have "0 \<le> t * t * (3 - 2 * t)" using t by simp
  moreover have "1 - t * t * (3 - 2 * t) = (1 - t) * (1 - t) * (1 + 2 * t)"
    by (simp add: algebra_simps)
  then have "0 \<le> 1 - t * t * (3 - 2 * t)" using t by simp
  ultimately show ?thesis unfolding s by simp
qed

section \<open>Binary64 rounding, evaluated\<close>

lemma ulp_down_numeral:
  "ulp_down (numeral k) m q = (if m < 2 ^ 52 * q then ulp_down (pred_numeral k) m (q / 2) else q)"
  by (simp add: numeral_eq_Suc)

lemma ulp_up_numeral:
  "ulp_up (numeral k) m q = (if 2 ^ 53 * q \<le> m then ulp_up (pred_numeral k) m (q * 2) else q)"
  by (simp add: numeral_eq_Suc)

lemmas f64_simps = f64_def ulp_def rne_def Let_def ulp_down_numeral ulp_up_numeral

text \<open>The search finds the spacing of the binade: if \<open>m * 2 ^ k\<close> lies in
  \<open>[2 ^ 52, 2 ^ 53)\<close> for some \<open>k \<le> 1074\<close>, the spacing is \<open>1 / 2 ^ k\<close>.\<close>

lemma binade_nonneg:
  fixes m :: real
  assumes "2 ^ 52 \<le> m * 2 ^ k"
  shows "0 \<le> m"
proof (rule ccontr)
  assume "\<not> 0 \<le> m"
  then have "m * 2 ^ k < 0" by (simp add: mult_less_0_iff)
  with assms show False by simp
qed

lemma ulp_down_found:
  "j \<le> k \<Longrightarrow> k - j \<le> n \<Longrightarrow> 2 ^ 52 \<le> m * 2 ^ k \<Longrightarrow> m * 2 ^ k < 2 ^ 53 \<Longrightarrow>
   ulp_down n m (1 / 2 ^ j) = 1 / 2 ^ k"
proof (induction n arbitrary: j)
  case 0
  then show ?case by simp
next
  case (Suc n)
  have m: "0 \<le> m" by (rule binade_nonneg [OF Suc.prems(3)])
  show ?case
  proof (cases "j = k")
    case True
    have "2 ^ 52 / 2 ^ k \<le> m"
      using Suc.prems(3) by (simp add: pos_divide_le_eq)
    then have "\<not> m < 2 ^ 52 * (1 / 2 ^ j)" using True by simp
    then show ?thesis using True by (simp only: ulp_down.simps if_False)
  next
    case False
    with Suc.prems have jk: "Suc j \<le> k" by simp
    have "(2::real) ^ Suc j \<le> 2 ^ k" using jk by (intro power_increasing) simp_all
    then have "m * 2 ^ Suc j \<le> m * 2 ^ k" using m by (rule mult_left_mono)
    then have "m * 2 ^ Suc j < 2 ^ 53" using Suc.prems(4) by (rule le_less_trans)
    then have "2 * (m * 2 ^ j) < 2 * 2 ^ 52" by (simp add: mult.left_commute)
    then have "m * 2 ^ j < 2 ^ 52" by (simp only: mult_less_cancel_left_pos zero_less_numeral)
    then have "m < 2 ^ 52 / 2 ^ j" by (simp add: pos_less_divide_eq)
    then have lt: "m < 2 ^ 52 * (1 / 2 ^ j)" by simp
    have h: "1 / 2 ^ j / 2 = 1 / (2::real) ^ Suc j" by simp
    have "ulp_down n m (1 / 2 ^ Suc j) = 1 / 2 ^ k"
      using jk Suc.prems by (intro Suc.IH) simp_all
    then show ?thesis using lt by (simp only: ulp_down.simps if_True h)
  qed
qed

lemma ulp_binade:
  assumes "k \<le> 1074" and "2 ^ 52 \<le> m * 2 ^ k" and "m * 2 ^ k < 2 ^ 53"
  shows "ulp m = 1 / 2 ^ k"
proof (cases "k = 0")
  case True
  with assms have "\<not> m < 2 ^ 52" "\<not> 2 ^ 53 * 1 \<le> m" by simp_all
  then show ?thesis using True by (simp add: ulp_def ulp_up_numeral)
next
  case False
  then have "(2::real) ^ 1 \<le> 2 ^ k" by (intro power_increasing) simp_all
  moreover have "0 \<le> m" by (rule binade_nonneg [OF assms(2)])
  ultimately have "m * 2 ^ 1 \<le> m * 2 ^ k" by (intro mult_left_mono)
  with assms(3) have "m < 2 ^ 52" by simp
  moreover have "ulp_down 1074 m (1 / 2 ^ 0) = 1 / 2 ^ k"
    using assms by (intro ulp_down_found) simp_all
  ultimately show ?thesis by (simp add: ulp_def)
qed


lemma flare_curve_exact: "flare_curve rnd k = flare_curve_with (\<lambda>a. a) rnd k"
  by (simp add: flare_curve_def flare_curve_with_def normalize_v3_def normalize_with_def
      divideScalar_def multiplyScalar_def multiplyScalar_with_def length_v3_def length_with_def)

lemma corona_with_fields:
  "opacity (material (corona_with rd i)) = rd (rd 0.2 - rd (real i * rd 0.11))"
  "geometry (corona_with rd i) = SphereGeometry (rd (rd 1.0 + rd (real i * rd 0.16))) 64 48"
  "color (material (corona_with rd i)) = Some (Color 0xffaa44 (rd (rd 1.4 - rd (real i * rd 0.28))))"
  "renderOrder (corona_with rd i) = rd (2 + real i)"
  by (simp_all add: corona_with_def default_material_def)




lemma renderOrder_binary64:
  "renderOrder (corona_with f64 1) = 3" "renderOrder (corona_with f64 2) = 4"
  "renderOrder (corona_with f64 3) = 5" "renderOrder (corona_with f64 4) = 6"
  by (simp_all add: corona_with_fields f64_simps)




section \<open>The corona shells\<close>



section \<open>The flares at construction\<close>

lemma flare_zero_real:
  "flare_curve rnd_half 0 = [vec3 0 0 0, vec3 0 0 0, vec3 0 0 0]"
  by (simp add: flare_curve_def normalize_v3_def divideScalar_def multiplyScalar_def length_v3_def
      rnd_half_def vec3_def)

lemma flare_zero_binary64:
  "flare_curve_with f64 rnd_half 0 = [vec3 0 0 0, vec3 0 0 0, vec3 0 0 0]"
  by (simp add: flare_curve_with_def normalize_with_def multiplyScalar_with_def length_with_def
      rnd_half_def vec3_def f64_simps)

text \<open>
  Claim C7 gives, for every sequence of values drawn from the random source, a second
  control point of length 1.1 and a third of length in \<open>[2.5, 4.0)\<close>. The code aims at
  these radii with \<^verbatim>\<open>normalize().multiplyScalar(r)\<close> and misses one case: when the three
  draws of a control point are all exactly 0.5, the vector before normalisation is
  \<open>(0, 0, 0)\<close>, \<^verbatim>\<open>normalize\<close> divides it by \<^verbatim>\<open>length() || 1\<close>, that is by 1, and the
  control point stays at the origin. The theorem evaluates the code at the random source
  that always returns 0.5: the three control points of flare 0 are the origin, over the
  reals and in binary64 alike, so the second has length 0, not 1.1, and the third has
  length 0, below 2.5.
\<close>

theorem flare_zero_vector_control_points:
  "valid_random rnd_half
   \<and> geometry (flares (build_scene gp_chord rnd_half 800 600) ! 0)
       = BufferGeometry (getPoints gp_chord (flare_curve rnd_half 0) 50)
   \<and> flare_curve rnd_half 0 = [vec3 0 0 0, vec3 0 0 0, vec3 0 0 0]
   \<and> flare_curve_with f64 rnd_half 0 = [vec3 0 0 0, vec3 0 0 0, vec3 0 0 0]
   \<and> length_v3 (flare_curve rnd_half 0 ! 1) = 0
   \<and> length_v3 (flare_curve rnd_half 0 ! 1) \<noteq> 1.1
   \<and> length_v3 (flare_curve rnd_half 0 ! 2) = 0
   \<and> \<not> 2.5 \<le> length_v3 (flare_curve rnd_half 0 ! 2)"
proof -
  have v: "valid_random rnd_half" by (simp add: valid_random_def rnd_half_def)
  have g: "geometry (flares (build_scene gp_chord rnd_half 800 600) ! 0)
       = BufferGeometry (getPoints gp_chord (flare_curve rnd_half 0) 50)"
    by (simp add: nth_flares_build flareLine_def Let_def)
  have z: "length_v3 (vec3 0 0 0) = 0" by (simp add: length_v3_def vec3_def)
  have 1: "length_v3 (flare_curve rnd_half 0 ! 1) = 0"
    unfolding flare_zero_real using z by simp
  have 2: "length_v3 (flare_curve rnd_half 0 ! 2) = 0"
    unfolding flare_zero_real using z by simp
  show ?thesis
    unfolding 1 2 using v g flare_zero_real flare_zero_binary64 by simp
qed

section \<open>Render order and nesting of the layers\<close>

text \<open>
  Claim C2, as the specification states it, gives the four corona shells the render
  orders 2..5. The loop assigns \<open>2 + i\<close> for \<open>i = 1, \<dots>, 4\<close>: the orders are 3..6.
\<close>

theorem render_order_corona_counterexample:
  "map renderOrder (coronas (build_scene gp_chord rnd_zero 800 600)) = [3, 4, 5, 6]
   \<and> map renderOrder (coronas (build_scene gp_chord rnd_zero 800 600)) \<noteq> [2, 3, 4, 5]"
  by (simp add: renderOrders_coronas_build)

text \<open>
  Claim C2, amended. The render orders assigned at construction are strictly increasing
  along the layers: the sun body has 0, the wireframe overlay 0.5, the occlusion shell 1,
  the four corona shells 3..6 and the eight flares 10..17; every corona order is strictly
  above the occlusion shell's and every flare order strictly above every corona order.
\<close>

theorem render_order_strict:
  "renderOrder (sunMesh (build_scene gp rnd w h)) = 0
   \<and> renderOrder (wireMesh (build_scene gp rnd w h)) = 0.5
   \<and> renderOrder (occlusion (build_scene gp rnd w h)) = 1
   \<and> map renderOrder (coronas (build_scene gp rnd w h)) = [3, 4, 5, 6]
   \<and> map renderOrder (flares (build_scene gp rnd w h)) = [10, 11, 12, 13, 14, 15, 16, 17]
   \<and> sorted_wrt (<) (renderOrders (build_scene gp rnd w h))
   \<and> list_all (\<lambda>c. renderOrder (occlusion (build_scene gp rnd w h)) < renderOrder c)
        (coronas (build_scene gp rnd w h))
   \<and> list_all (\<lambda>f. list_all (\<lambda>c. renderOrder c < renderOrder f)
                      (coronas (build_scene gp rnd w h)))
        (flares (build_scene gp rnd w h))"
proof -
  have 1: "list_all (\<lambda>c. renderOrder (occlusion (build_scene gp rnd w h)) < renderOrder c)
        (coronas (build_scene gp rnd w h))"
    by (simp add: coronas_build corona_def occlusion_init_def)
  have 2: "list_all (\<lambda>c. renderOrder c < r) (coronas (build_scene gp rnd w h)) = (6 < r)" for r
    by (auto simp add: coronas_build corona_def)
  have 3: "list_all (\<lambda>f. 6 < renderOrder f) (flares (build_scene gp rnd w h))"
    by (simp add: list_all_renderOrder renderOrders_flares_build)
  have 4: "sorted_wrt (<) (renderOrders (build_scene gp rnd w h))"
    unfolding renderOrders_build by simp
  show ?thesis
    unfolding 2 using 1 3 4
    by (simp add: renderOrders_flares_build renderOrders_coronas_build
        sunMesh_init_def wireMesh_init_def occlusion_init_def)
qed

text \<open>
  Claim C9. The layered spheres are strictly nested at construction: the sun body has
  radius 1.0, the wireframe overlay is the same geometry scaled by 1.012, the occlusion
  shell has radius 1.025 and the smallest corona shell has radius 1.16, with
  \<open>1.0 < 1.012 < 1.025 < 1.16\<close>; every corona shell is strictly outside the occlusion
  shell.
\<close>

theorem nested_spheres:
  "mesh_radius (sunMesh (build_scene gp rnd w h)) = Some 1.0
   \<and> mesh_radius (wireMesh (build_scene gp rnd w h)) = Some 1.012
   \<and> mesh_radius (occlusion (build_scene gp rnd w h)) = Some 1.025
   \<and> map mesh_radius (coronas (build_scene gp rnd w h))
       = [Some 1.16, Some 1.32, Some 1.48, Some 1.64]
   \<and> (1.0::real) < 1.012 \<and> (1.012::real) < 1.025 \<and> (1.025::real) < 1.16
   \<and> list_all (\<lambda>c. case mesh_radius c of None \<Rightarrow> False | Some r \<Rightarrow> 1.025 < r \<and> 1.16 \<le> r)
        (coronas (build_scene gp rnd w h))"
  by (simp add: coronas_build corona_def mesh_radius_def sunMesh_init_def
      wireMesh_init_def occlusion_init_def geo_def)

section \<open>The animation tick\<close>

text \<open>
  Claim C5. The uniform scale of the group set by a tick is \<open>1 + sin (time * 2) * 0.02\<close>
  with \<open>time = t * 0.0005\<close>, and lies in \<open>[0.98, 1.02]\<close>. This holds for every
  timestamp and every state the tick starts from, so for every \<open>time \<ge> 0\<close>.
\<close>

theorem pulse_scale_bounds:
  "sunGroup_scale (animate t s) = 1 + sin (t * 0.0005 * 2) * 0.02
   \<and> 0.98 \<le> sunGroup_scale (animate t s) \<and> sunGroup_scale (animate t s) \<le> 1.02"
proof (intro conjI)
  show "sunGroup_scale (animate t s) = 1 + sin (t * 0.0005 * 2) * 0.02"
    by (rule sunGroup_scale_animate)
  show "0.98 \<le> sunGroup_scale (animate t s)"
    unfolding sunGroup_scale_animate
    using sin_affine_bounds(1) [of "0.02" 1 "t * 0.0005 * 2"] by simp
  show "sunGroup_scale (animate t s) \<le> 1.02"
    unfolding sunGroup_scale_animate
    using sin_affine_bounds(2) [of "0.02" 1 "t * 0.0005 * 2"] by simp
qed

text \<open>
  Claim C10. The state updates of a tick are idempotent in the timestamp: running them
  twice with the same \<open>t\<close> leaves the whole state (the shader's time uniform, the
  group's scale and rotation, every flare's scale and opacity) as running them once does.
  Every write is a function of \<open>t\<close> and of \<^verbatim>\<open>userData\<close>, which no tick changes.
\<close>

theorem animate_idempotent: "animate t (animate t s) = animate t s"
  by (simp add: animate_def Let_def animate_flare_idem o_def)

section \<open>Signs of the sine, bounds of \<open>pi\<close> and the remainder\<close>

text \<open>The Maclaurin series of the sine, with its error bound, gives the sign of
  \<open>sin 3\<close> and of \<open>sin (7 / 2)\<close>, hence \<open>3 < pi < 7 / 2\<close>.\<close>

lemma sin_3_pos: "0 < sin (3::real)"
proof -
  have "\<bar>sin (3::real) - (\<Sum>m<11. sin_coeff m * 3 ^ m)\<bar> \<le> inverse (fact 11) * \<bar>3\<bar> ^ 11"
    by (rule Maclaurin_sin_bound)
  moreover have "(\<Sum>m<11. sin_coeff m * (3::real) ^ m) = 93 / 640"
    by (simp add: sin_coeff_def lessThan_nat_numeral fact_numeral)
  moreover have "inverse (fact 11) * \<bar>3::real\<bar> ^ 11 \<le> 1 / 100"
    by (simp add: fact_numeral)
  ultimately have "\<bar>sin (3::real) - 93 / 640\<bar> \<le> 1 / 100" by simp
  then show ?thesis by linarith
qed

lemma sin_7_2_neg: "sin (7/2::real) < 0"
proof -
  have "\<bar>sin (7/2::real) - (\<Sum>m<13. sin_coeff m * (7/2) ^ m)\<bar> \<le> inverse (fact 13) * \<bar>7/2\<bar> ^ 13"
    by (rule Maclaurin_sin_bound)
  moreover have "(\<Sum>m<13. sin_coeff m * (7/2::real) ^ m) \<le> - 1/4"
    by (simp add: sin_coeff_def lessThan_nat_numeral fact_numeral power_divide)
  moreover have "inverse (fact 13) * \<bar>7/2::real\<bar> ^ 13 \<le> 1/100"
    by (simp add: fact_numeral power_divide)
  ultimately show ?thesis by linarith
qed

lemma pi_gt_3: "3 < pi"
proof (rule ccontr)
  assume "\<not> 3 < pi"
  then have "pi \<le> 3" by simp
  moreover have "3 < 2 * pi" using pi_ge_two by simp
  ultimately have "sin (3::real) \<le> 0"
    using sin_lt_zero [of 3] sin_pi by (cases "pi = 3") auto
  with sin_3_pos show False by simp
qed

lemma pi_lt_7_2: "pi < 7/2"
proof (rule ccontr)
  assume "\<not> pi < 7/2"
  then have "7/2 \<le> pi" by simp
  then have "0 \<le> sin (7/2::real)" by (intro sin_ge_zero) simp_all
  with sin_7_2_neg show False by simp
qed

lemma sin_shift_int: "sin (x - pi * 2 * of_int k) = sin (x::real)"
proof -
  have "sin (x - pi * 2 * of_int k) = sin (x + 2 * pi * of_int (- k))"
    by (simp add: algebra_simps)
  also have "\<dots> = sin x"
    unfolding sin_add by simp
  finally show ?thesis .
qed

lemma sin_js_rem: "sin (js_rem a (pi * 2) * of_int m) = sin (a * of_int m)"
proof -
  have "js_rem a (pi * 2) * of_int m = a * of_int m - pi * 2 * of_int (trunc (a / (pi * 2)) * m)"
    by (simp add: js_rem_def algebra_simps)
  then show ?thesis by (simp only: sin_shift_int)
qed

lemma sin_js_rem_2: "sin (js_rem a (pi * 2) * 2) = sin (a * 2)"
  using sin_js_rem [of a 2] by simp

lemma sin_js_rem_3: "sin (js_rem a (pi * 2) * 3) = sin (a * 3)"
  using sin_js_rem [of a 3] by simp

lemma sin_pos_window:
  assumes "2 * pi * real n < x" and "x < 2 * pi * real n + pi"
  shows "0 < sin x"
proof -
  have "0 < sin (x - pi * 2 * of_int (int n))"
    by (rule sin_gt_zero) (use assms in \<open>simp_all add: algebra_simps\<close>)
  then show ?thesis by (simp only: sin_shift_int)
qed

lemma sin_neg_window:
  assumes "2 * pi * real n + pi < x" and "x < 2 * pi * real n + 2 * pi"
  shows "sin x < 0"
proof -
  have "sin (x - pi * 2 * of_int (int n)) < 0"
    by (rule sin_lt_zero) (use assms in \<open>simp_all add: algebra_simps\<close>)
  then show ?thesis by (simp only: sin_shift_int)
qed

lemma sin_multiples_of_3:
  "0 < sin (3::real)" "sin (6::real) < 0" "0 < sin (9::real)" "sin (12::real) < 0"
  "0 < sin (15::real)" "sin (18::real) < 0" "0 < sin (21::real)"
proof -
  note b = pi_gt_3 pi_lt_7_2
  show "0 < sin (3::real)" by (rule sin_3_pos)
  show "sin (6::real) < 0" using sin_neg_window [of 0 6] b by simp
  show "0 < sin (9::real)" using sin_pos_window [of 1 9] b by simp
  show "sin (12::real) < 0" using sin_neg_window [of 1 12] b by simp
  show "0 < sin (15::real)" using sin_pos_window [of 2 15] b by simp
  show "sin (18::real) < 0" using sin_neg_window [of 2 18] b by simp
  show "0 < sin (21::real)" using sin_pos_window [of 3 21] b by simp
qed

lemma js_rem_range:
  assumes "0 \<le> a" and "0 < b"
  shows "0 \<le> js_rem a b" and "js_rem a b < b"
proof -
  have q: "0 \<le> a / b" using assms by simp
  then have t: "trunc (a / b) = \<lfloor>a / b\<rfloor>" by (simp add: trunc_def)
  have ab: "a / b * b = a" using assms by simp
  have "of_int \<lfloor>a / b\<rfloor> * b \<le> a / b * b"
    by (rule mult_right_mono) (use assms in simp_all)
  then show "0 \<le> js_rem a b" unfolding ab by (simp add: js_rem_def t mult.commute)
  have "a / b < of_int \<lfloor>a / b\<rfloor> + 1" by linarith
  then have "a / b * b < (of_int \<lfloor>a / b\<rfloor> + 1) * b"
    by (rule mult_strict_right_mono) (use assms in simp_all)
  then show "js_rem a b < b" unfolding ab by (simp add: js_rem_def t algebra_simps)
qed

section \<open>What no event changes\<close>

lemma flares_animate: "flares (animate t s) = map (animate_flare (t * 0.0005)) (flares s)"
  by (simp add: animate_def Let_def)

lemma animate_flare_fixed [simp]:
  "userData_phase (animate_flare time f) = userData_phase f"
  "userData_scale (animate_flare time f) = userData_scale f"
  "geometry (animate_flare time f) = geometry f"
  "renderOrder (animate_flare time f) = renderOrder f"
  by (simp_all add: animate_flare_def Let_def)

lemma flares_handle:
  "map userData_phase (flares (handle e s)) = map userData_phase (flares s)"
  "map userData_scale (flares (handle e s)) = map userData_scale (flares s)"
  by (cases e; simp add: animate_call_def flares_animate resize_def o_def)+

lemma flares_run:
  "map userData_phase (flares (run es s)) = map userData_phase (flares s)"
  "map userData_scale (flares (run es s)) = map userData_scale (flares s)"
  by (induction es arbitrary: s) (simp_all add: flares_handle)

lemma flares_startup:
  "map userData_phase (flares (startup gp rnd w h))
     = map userData_phase (flares (build_scene gp rnd w h))"
  "map userData_scale (flares (startup gp rnd w h))
     = map userData_scale (flares (build_scene gp rnd w h))"
  by (simp_all add: startup_def animate_call_def flares_animate o_def)

lemma length_flares_reachable: "length (flares (run es (startup gp rnd w h))) = 8"
proof -
  have "length (map userData_phase (flares (run es (startup gp rnd w h)))) = 8"
    unfolding flares_run flares_startup by (simp add: length_flares_build)
  then show ?thesis by simp
qed

lemma userData_reachable:
  assumes "i < 8"
  shows "userData_phase (flares (run es (startup gp rnd w h)) ! i) = real i * 1.5"
    and "userData_scale (flares (run es (startup gp rnd w h)) ! i) = 1 + rnd (9 * i + 8) * 0.8"
proof -
  let ?fs = "flares (run es (startup gp rnd w h))"
  have "userData_phase (?fs ! i) = map userData_phase ?fs ! i"
    using assms by (simp add: length_flares_reachable)
  also have "\<dots> = userData_phase (flares (build_scene gp rnd w h) ! i)"
    unfolding flares_run flares_startup using assms by (simp add: length_flares_build)
  finally show "userData_phase (?fs ! i) = real i * 1.5"
    using assms by (simp add: nth_flares_build flareLine_def Let_def)
  have "userData_scale (?fs ! i) = map userData_scale ?fs ! i"
    using assms by (simp add: length_flares_reachable)
  also have "\<dots> = userData_scale (flares (build_scene gp rnd w h) ! i)"
    unfolding flares_run flares_startup using assms by (simp add: length_flares_build)
  finally show "userData_scale (?fs ! i) = 1 + rnd (9 * i + 8) * 0.8"
    using assms by (simp add: nth_flares_build flareLine_def Let_def)
qed

lemma nth_flares_animate:
  "i < length (flares s) \<Longrightarrow>
   flares (animate t s) ! i = animate_flare (t * 0.0005) (flares s ! i)"
  by (simp add: flares_animate)

text \<open>
  Claim C4. For every flare \<open>i\<close> in 0..7 and every \<open>time \<ge> 0\<close>, in every state
  the program can be in, the tick computes \<open>phase = (time + i * 1.5) mod 2\<pi>\<close>, which
  lies in \<open>[0, 2\<pi>)\<close>; it sets the flare's scale to
  \<open>max 0 (sin (phase * 2) * 1.5) * baseScale\<close>, which is never negative (the base
  scale, \<^verbatim>\<open>userData.scale\<close>, lies in \<open>[1.0, 1.8)\<close>), and its opacity to
  \<open>0.4 + sin (phase * 3) * 0.6\<close>, which lies in \<open>[-0.2, 1.0]\<close>.
\<close>

theorem flare_tick_bounds:
  assumes "valid_random rnd" and "0 \<le> t" and "i < 8"
  shows "(let s = run es (startup gp rnd w h);
              s' = animate t s;
              time = t * 0.0005;
              phase = js_rem (time + real i * 1.5) (pi * 2)
          in 0 \<le> time
           \<and> 0 \<le> phase \<and> phase < 2 * pi
           \<and> userData_phase (flares s ! i) = real i * 1.5
           \<and> 1.0 \<le> userData_scale (flares s ! i) \<and> userData_scale (flares s ! i) < 1.8
           \<and> scale (flares s' ! i) = max 0 (sin (phase * 2) * 1.5) * userData_scale (flares s ! i)
           \<and> 0 \<le> scale (flares s' ! i)
           \<and> opacity (material (flares s' ! i)) = 0.4 + sin (phase * 3) * 0.6
           \<and> - 0.2 \<le> opacity (material (flares s' ! i))
           \<and> opacity (material (flares s' ! i)) \<le> 1.0)"
proof -
  define s where "s = run es (startup gp rnd w h)"
  define phase where "phase = js_rem (t * 0.0005 + real i * 1.5) (pi * 2)"
  have r: "0 \<le> rnd (9 * i + 8)" "rnd (9 * i + 8) < 1"
    using assms(1) by (simp_all add: valid_random_def)
  have len: "i < length (flares s)"
    using assms(3) by (simp add: s_def length_flares_reachable)
  have ph: "userData_phase (flares s ! i) = real i * 1.5"
    and sc: "userData_scale (flares s ! i) = 1 + rnd (9 * i + 8) * 0.8"
    using userData_reachable [OF assms(3)] by (simp_all add: s_def)
  have f: "flares (animate t s) ! i = animate_flare (t * 0.0005) (flares s ! i)"
    by (rule nth_flares_animate [OF len])
  have p: "0 \<le> phase" "phase < 2 * pi"
    unfolding phase_def using js_rem_range [of "t * 0.0005 + real i * 1.5" "pi * 2"] assms(2)
    by simp_all
  have scale: "scale (flares (animate t s) ! i)
      = max 0 (sin (phase * 2) * 1.5) * userData_scale (flares s ! i)"
    unfolding f by (simp add: animate_flare_def Let_def ph phase_def)
  have op: "opacity (material (flares (animate t s) ! i)) = 0.4 + sin (phase * 3) * 0.6"
    unfolding f by (simp add: animate_flare_def Let_def ph phase_def)
  have nonneg: "0 \<le> scale (flares (animate t s) ! i)"
    unfolding scale sc using r by (intro mult_nonneg_nonneg) simp_all
  have lo: "- 0.2 \<le> opacity (material (flares (animate t s) ! i))"
    unfolding op using sin_affine_bounds(1) [of "0.6" "0.4" "phase * 3"] by simp
  have hi: "opacity (material (flares (animate t s) ! i)) \<le> 1.0"
    unfolding op using sin_affine_bounds(2) [of "0.6" "0.4" "phase * 3"] by simp
  have bs: "1.0 \<le> userData_scale (flares s ! i)" "userData_scale (flares s ! i) < 1.8"
    unfolding sc using r by simp_all
  show ?thesis
    unfolding Let_def s_def [symmetric] phase_def [symmetric]
    using assms(2) p ph bs scale nonneg op lo hi by simp
qed

theorem flare_tick_bounds_witness:
  "(let s = run [Frame 16, Resize 1920 1080] (startup gp_chord rnd_zero 800 600);
        s' = animate 0 s
    in scale (flares s' ! 0) = 0 \<and> opacity (material (flares s' ! 0)) = 0.4)"
  using flare_tick_bounds [of rnd_zero 0 0 "[Frame 16, Resize 1920 1080]" gp_chord 800 600]
  by (simp add: valid_random_def rnd_zero_def Let_def js_rem_def trunc_def)


section \<open>The tick at timestamp 0\<close>

lemma scale_at_zero:
  assumes "i < length (flares s)"
  shows "scale (flares (animate 0 s) ! i)
    = max 0 (sin (userData_phase (flares s ! i) * 2) * 1.5) * userData_scale (flares s ! i)"
  using assms by (simp add: flares_animate animate_flare_def Let_def sin_js_rem_2)

lemma sgn_grow:
  fixes x b :: real
  assumes "0 < b"
  shows "sgn (max 0 (x * 1.5) * b) = (if 0 < x then 1 else 0)"
proof (cases "0 < x")
  case True
  then have "0 < max 0 (x * 1.5) * b" using assms by (intro mult_pos_pos) simp_all
  with True show ?thesis by simp
next
  case False
  then have "max 0 (x * 1.5) = 0" by (simp add: max_def)
  with False show ?thesis by simp
qed

lemma sgn_scale_at_zero:
  assumes "length (flares s) = 8"
    and "\<And>i. i < 8 \<Longrightarrow> userData_phase (flares s ! i) = real i * 1.5"
    and "\<And>i. i < 8 \<Longrightarrow> 0 < userData_scale (flares s ! i)"
  shows "map (\<lambda>f. sgn (scale f)) (flares (animate 0 s)) = [0, 1, 0, 1, 0, 1, 0, 1]"
proof (rule nth_equalityI)
  show "length (map (\<lambda>f. sgn (scale f)) (flares (animate 0 s))) = length [0, 1, 0, 1, 0, 1, 0, 1::real]"
    using assms(1) by (simp add: flares_animate)
next
  fix i assume "i < length (map (\<lambda>f. sgn (scale f)) (flares (animate 0 s)))"
  then have i: "i < 8" using assms(1) by (simp add: flares_animate)
  then have l: "i < length (flares s)" "i < length (flares (animate 0 s))"
    using assms(1) by (simp_all add: flares_animate)
  have ph2: "real i * 1.5 * 2 = 3 * real i" by simp
  have "sgn (scale (flares (animate 0 s) ! i)) = (if 0 < sin (3 * real i) then 1 else 0)"
    unfolding scale_at_zero [OF l(1)] assms(2) [OF i] ph2
    by (rule sgn_grow [OF assms(3) [OF i]])
  moreover from i have "i = 0 \<or> i = 1 \<or> i = 2 \<or> i = 3 \<or> i = 4 \<or> i = 5 \<or> i = 6 \<or> i = 7"
    by auto
  ultimately have "sgn (scale (flares (animate 0 s) ! i)) = [0, 1, 0, 1, 0, 1, 0, 1] ! i"
    using sin_multiples_of_3 by (elim disjE) (simp_all add: not_less [symmetric] less_imp_le)
  then show "map (\<lambda>f. sgn (scale f)) (flares (animate 0 s)) ! i = [0, 1, 0, 1, 0, 1, 0, 1] ! i"
    using l(2) by simp
qed


lemma userData_build:
  assumes "i < 8"
  shows "userData_phase (flares (build_scene gp rnd w h) ! i) = real i * 1.5"
    and "userData_scale (flares (build_scene gp rnd w h) ! i) = 1 + rnd (9 * i + 8) * 0.8"
  using assms by (simp_all add: nth_flares_build flareLine_def Let_def)

lemma userData_scale_pos: "valid_random rnd \<Longrightarrow> 0 < 1 + rnd k * 0.8"
proof -
  assume "valid_random rnd"
  then have "0 \<le> rnd k" by (simp add: valid_random_def)
  then have "0 \<le> rnd k * 0.8" by simp
  then show ?thesis by linarith
qed

lemma startup_eq: "startup gp rnd w h = animate 0 (build_scene gp rnd w h)"
  by (simp add: startup_def animate_call_def)

text \<open>
  Claim C3, as the specification states it, has every flare at render scale 0 when the
  tick runs with \<open>t = 0\<close>. The phase of flare 1 is then 1.5, and \<open>sin 3 > 0\<close>: after
  the first tick, the call \<^verbatim>\<open>animate()\<close> of the module, flare 1 has a positive scale.
\<close>

theorem tick_at_zero_counterexample:
  "0 < scale (flares (startup gp_chord rnd_zero 800 600) ! 1)"
proof -
  have "scale (flares (startup gp_chord rnd_zero 800 600) ! 1) = max 0 (sin 3 * 1.5) * 1"
    unfolding startup_eq
    by (subst scale_at_zero) (simp_all add: length_flares_build userData_build rnd_zero_def)
  then show ?thesis using sin_3_pos by simp
qed

lemma sgn_scale_reachable:
  assumes "valid_random rnd"
  shows "map (\<lambda>f. sgn (scale f)) (flares (animate 0 (run es (startup gp rnd w h))))
    = [0, 1, 0, 1, 0, 1, 0, 1]"
proof (rule sgn_scale_at_zero)
  show "length (flares (run es (startup gp rnd w h))) = 8"
    by (rule length_flares_reachable)
  show "userData_phase (flares (run es (startup gp rnd w h)) ! i) = real i * 1.5" if "i < 8" for i
    by (rule userData_reachable(1) [OF that])
  show "0 < userData_scale (flares (run es (startup gp rnd w h)) ! i)" if "i < 8" for i
    unfolding userData_reachable(2) [OF that] by (rule userData_scale_pos [OF assms])
qed

lemma sgn_scale_startup:
  assumes "valid_random rnd"
  shows "map (\<lambda>f. sgn (scale f)) (flares (startup gp rnd w h)) = [0, 1, 0, 1, 0, 1, 0, 1]"
  unfolding startup_eq
proof (rule sgn_scale_at_zero)
  show "length (flares (build_scene gp rnd w h)) = 8"
    by (rule length_flares_build)
  show "userData_phase (flares (build_scene gp rnd w h) ! i) = real i * 1.5" if "i < 8" for i
    by (rule userData_build(1) [OF that])
  show "0 < userData_scale (flares (build_scene gp rnd w h) ! i)" if "i < 8" for i
    unfolding userData_build(2) [OF that] by (rule userData_scale_pos [OF assms])
qed

text \<open>
  Claim C3, amended. When the tick runs with \<open>t = 0\<close>, the shader's time uniform is 0,
  the group's scale is exactly 1 and its rotation about y is 0; the render scale of
  flares 0, 2, 4 and 6 is 0 and the render scale of flares 1, 3, 5 and 7 is positive
  (flare \<open>i\<close> has the scale \<open>max 0 (sin (3 i) * 1.5) * baseScale\<close>). The same holds
  after the module's own first call \<^verbatim>\<open>animate()\<close>.
\<close>

theorem tick_at_zero:
  assumes "valid_random rnd"
  shows "(let s' = animate 0 (run es (startup gp rnd w h)) in
            sunMat_time s' = 0 \<and> sunGroup_scale s' = 1 \<and> sunGroup_rotation_y s' = 0
          \<and> scale (flares s' ! 0) = 0
          \<and> map (\<lambda>f. sgn (scale f)) (flares s') = [0, 1, 0, 1, 0, 1, 0, 1])
       \<and> map (\<lambda>f. sgn (scale f)) (flares (startup gp rnd w h)) = [0, 1, 0, 1, 0, 1, 0, 1]"
proof -
  let ?s = "run es (startup gp rnd w h)"
  have a: "sunMat_time (animate 0 ?s) = 0 \<and> sunGroup_scale (animate 0 ?s) = 1
      \<and> sunGroup_rotation_y (animate 0 ?s) = 0"
    by (simp add: animate_def Let_def)
  have c: "scale (flares (animate 0 ?s) ! 0) = 0"
    by (subst scale_at_zero) (simp_all add: length_flares_reachable userData_reachable)
  show ?thesis
    unfolding Let_def
    using a c sgn_scale_reachable [OF assms] sgn_scale_startup [OF assms] by simp
qed

theorem tick_at_zero_witness:
  "valid_random rnd_zero
   \<and> map (\<lambda>f. sgn (scale f)) (flares (startup gp_chord rnd_zero 800 600))
     = [0, 1, 0, 1, 0, 1, 0, 1]"
proof -
  have "valid_random rnd_zero" by (simp add: valid_random_def rnd_zero_def)
  from this tick_at_zero [OF this, of "[]" gp_chord 800 600] show ?thesis by blast
qed

section \<open>The resize listener\<close>

lemma viewport_animate [simp]:
  "renderer_size (animate t s) = renderer_size s"
  "camera_aspect (animate t s) = camera_aspect s"
  by (simp_all add: animate_def Let_def)

lemma viewport_frames:
  "renderer_size (run (map Frame ts) s) = renderer_size s"
  "camera_aspect (run (map Frame ts) s) = camera_aspect s"
  by (induction ts arbitrary: s) (simp_all add: animate_call_def)

lemma viewport_startup:
  "renderer_size (startup gp rnd w h) = (w, h)"
  "camera_aspect (startup gp rnd w h) = js_div w h"
  by (simp_all add: startup_eq build_scene_def)

text \<open>
  Claim C8. When the viewport is resized from 800 x 600 to 1920 x 1080, after any number
  of frames, the listener takes the camera's aspect ratio from \<open>4 / 3\<close> (1.333 to
  three decimals) to \<open>16 / 9\<close> (1.778 to three decimals) and the renderer's size to
  1920 x 1080; every object of the scene, its render order and every other field of the
  state stay as they were.
\<close>

theorem resize_800x600_to_1920x1080:
  "(let s = run (map Frame ts) (startup gp rnd 800 600);
        s' = handle (Resize 1920 1080) s
    in renderer_size s = (800, 600) \<and> camera_aspect s = Some (4 / 3)
     \<and> \<bar>4 / 3 - 1.333\<bar> \<le> (0.0005::real)
     \<and> renderer_size s' = (1920, 1080) \<and> camera_aspect s' = Some (16 / 9)
     \<and> \<bar>16 / 9 - 1.778\<bar> \<le> (0.0005::real)
     \<and> s' = s\<lparr>renderer_size := (1920, 1080), camera_aspect := Some (16 / 9)\<rparr>
     \<and> sunMesh s' = sunMesh s \<and> wireMesh s' = wireMesh s \<and> occlusion s' = occlusion s
     \<and> coronas s' = coronas s \<and> flares s' = flares s
     \<and> renderOrders s' = renderOrders s
     \<and> sunMat_time s' = sunMat_time s \<and> sunGroup_scale s' = sunGroup_scale s
     \<and> sunGroup_rotation_y s' = sunGroup_rotation_y s
     \<and> camera_fov s' = camera_fov s \<and> camera_near s' = camera_near s
     \<and> camera_far s' = camera_far s \<and> background s' = background s)"
  by (simp add: Let_def viewport_frames viewport_startup resize_def js_div_def renderOrders_def)

section \<open>The fragment shader\<close>

text \<open>
  Claim C6. The fragment colour is a function of \<open>vUv\<close> and \<open>time\<close> alone (the
  varying \<open>vNormal\<close> is not read): its RGB part is the mix of (0.6, 0.3, 0.1) and
  (1.0, 0.7, 0.2) by \<open>n\<close>, the smooth threshold between 0.4 and 0.7 of
  \<open>noise (uv * 5 + time * 0.05) + 0.5 * noise (uv * 12 + time * 0.08)\<close>, with
  \<open>noise p = fract (sin (dot p (12.9898, 78.233)) * 43758.5453)\<close>; its alpha is 1;
  \<open>n\<close> lies in \<open>[0, 1]\<close>.
\<close>

theorem fragment_shader_spec:
  "fragment_main time vNormal vUv = (spec_rgb vUv time, 1)
   \<and> fragment_main time vNormal vUv = fragment_main time vNormal' vUv
   \<and> snd (fragment_main time vNormal vUv) = 1
   \<and> noise p = fract (sin (dot p (12.9898, 78.233)) * 43758.5453)
   \<and> 0 \<le> spec_n vUv time \<and> spec_n vUv time \<le> 1"
  using smoothstep_bounds [of "0.4" "0.7"]
  by (simp add: fragment_main_def spec_rgb_def spec_n_def Let_def scale_add_def noise_def)

end
